theory Spec2Isabelle
  imports Complex_Main
begin

section \<open>Python values and exceptions\<close>

text \<open>
  The service in \<^verbatim>\<open>app/views.py\<close> works on JSON documents decoded by
  \<^verbatim>\<open>response.json()\<close> and on the request identifier taken from the trigger's
  JSON body. A decoded document is \<^verbatim>\<open>None\<close>, a \<^verbatim>\<open>bool\<close>, a number, a
  \<^verbatim>\<open>str\<close>, a \<^verbatim>\<open>list\<close> or a \<^verbatim>\<open>dict\<close> with string keys (kept in document
  order as an association list; a decoded dict has no duplicate keys).

  Numbers: Python's \<^verbatim>\<open>int\<close> and \<^verbatim>\<open>float\<close> are both read as exact rationals.
  Integers are exact in Python as well; for floats this is the idealisation of the
  model: rounding error, overflow, infinities and NaN of IEEE doubles are outside it.
\<close>

datatype pyval =
    PNone
  | PBool bool
  | PNum rat
  | PStr string
  | PList "pyval list"
  | PDict "(string \<times> pyval) list"

text \<open>
  The exception classes that occur. \<^verbatim>\<open>KeyboardInterrupt\<close> and \<^verbatim>\<open>SystemExit\<close>
  derive from \<^verbatim>\<open>BaseException\<close> only, so \<^verbatim>\<open>except Exception\<close> does not catch them.
  \<^verbatim>\<open>RequestException\<close> stands for every class of \<^verbatim>\<open>requests.exceptions\<close>
  (connection errors, timeouts).
\<close>

datatype exn =
    RequestException
  | ValueError
  | TypeError
  | AttributeError
  | ZeroDivisionError
  | KeyError
  | CancelledError
  | KeyboardInterrupt
  | SystemExit

fun is_Exception :: "exn \<Rightarrow> bool" where
  "is_Exception KeyboardInterrupt = False"
| "is_Exception SystemExit = False"
| "is_Exception _ = True"

fun is_RequestException :: "exn \<Rightarrow> bool" where
  "is_RequestException RequestException = True"
| "is_RequestException _ = False"

text \<open>Sequencing of statements that may raise: the first exception ends the block.\<close>

definition and_then :: "exn + 'a \<Rightarrow> ('a \<Rightarrow> exn + 'b) \<Rightarrow> exn + 'b" where
  "and_then m f = (case m of Inl e \<Rightarrow> Inl e | Inr v \<Rightarrow> f v)"

subsection \<open>The operations of Python the source uses\<close>

text \<open>Truth value testing (\<^verbatim>\<open>not x\<close>, \<^verbatim>\<open>x or y\<close>).\<close>

fun truthy :: "pyval \<Rightarrow> bool" where
  "truthy PNone = False"
| "truthy (PBool b) = b"
| "truthy (PNum x) = (x \<noteq> 0)"
| "truthy (PStr s) = (s \<noteq> [])"
| "truthy (PList xs) = (xs \<noteq> [])"
| "truthy (PDict kvs) = (kvs \<noteq> [])"

text \<open>\<^verbatim>\<open>x or y\<close> is \<^verbatim>\<open>x\<close> when \<^verbatim>\<open>x\<close> is true, else \<^verbatim>\<open>y\<close>.\<close>

definition py_or :: "pyval \<Rightarrow> pyval \<Rightarrow> pyval" where
  "py_or x y = (if truthy x then x else y)"

text \<open>The numeric value of an operand; \<^verbatim>\<open>bool\<close> is a subclass of \<^verbatim>\<open>int\<close>.\<close>

fun number_of :: "pyval \<Rightarrow> rat option" where
  "number_of (PNum x) = Some x"
| "number_of (PBool b) = Some (if b then 1 else 0)"
| "number_of _ = None"

text \<open>
  \<^verbatim>\<open>d.get(key, default)\<close>: only a dict has the method, on anything else the attribute
  lookup raises.
\<close>

fun dict_get :: "pyval \<Rightarrow> string \<Rightarrow> pyval \<Rightarrow> exn + pyval" where
  "dict_get (PDict kvs) key dflt =
     (case map_of kvs key of None \<Rightarrow> Inr dflt | Some v \<Rightarrow> Inr v)"
| "dict_get _ key dflt = Inl AttributeError"

text \<open>\<^verbatim>\<open>d[key]\<close> with a string key.\<close>

fun subscript :: "pyval \<Rightarrow> string \<Rightarrow> exn + pyval" where
  "subscript (PDict kvs) key =
     (case map_of kvs key of None \<Rightarrow> Inl KeyError | Some v \<Rightarrow> Inr v)"
| "subscript _ key = Inl TypeError"

text \<open>\<^verbatim>\<open>len(x)\<close>.\<close>

fun py_len :: "pyval \<Rightarrow> exn + nat" where
  "py_len (PStr s) = Inr (length s)"
| "py_len (PList xs) = Inr (length xs)"
| "py_len (PDict kvs) = Inr (length kvs)"
| "py_len _ = Inl TypeError"

text \<open>
  The items a \<^verbatim>\<open>for\<close> loop or generator visits: the elements of a list, the
  characters of a string, the keys of a dict.
\<close>

fun py_iter :: "pyval \<Rightarrow> exn + pyval list" where
  "py_iter (PList xs) = Inr xs"
| "py_iter (PStr s) = Inr (map (\<lambda>c. PStr [c]) s)"
| "py_iter (PDict kvs) = Inr (map (\<lambda>kv. PStr (fst kv)) kvs)"
| "py_iter _ = Inl TypeError"

text \<open>
  Arithmetic. In each use of the source one operand is known to be a number (the running
  total that starts at \<^verbatim>\<open>0\<close>, the literal \<^verbatim>\<open>0\<close>, a total that passed the
  \<^verbatim>\<open>== 0\<close> test); it is typed as a rational here. With any JSON value that is not a
  number on the other side, Python raises \<^verbatim>\<open>TypeError\<close>.
\<close>

text \<open>\<^verbatim>\<open>acc + v\<close> for a number \<^verbatim>\<open>acc\<close>.\<close>

definition num_add :: "rat \<Rightarrow> pyval \<Rightarrow> exn + rat" where
  "num_add acc v = (case number_of v of None \<Rightarrow> Inl TypeError | Some x \<Rightarrow> Inr (acc + x))"

text \<open>\<^verbatim>\<open>v > 0\<close>.\<close>

definition gt_zero :: "pyval \<Rightarrow> exn + bool" where
  "gt_zero v = (case number_of v of None \<Rightarrow> Inl TypeError | Some x \<Rightarrow> Inr (x > 0))"

text \<open>\<^verbatim>\<open>a - b\<close>; no JSON value other than a number supports it.\<close>

definition py_sub :: "pyval \<Rightarrow> pyval \<Rightarrow> exn + rat" where
  "py_sub a b =
     (case (number_of a, number_of b) of
        (Some x, Some y) \<Rightarrow> Inr (x - y)
      | _ \<Rightarrow> Inl TypeError)"

text \<open>\<^verbatim>\<open>a / b\<close>, true division.\<close>

definition true_div :: "rat \<Rightarrow> rat \<Rightarrow> exn + rat" where
  "true_div x y = (if y = 0 then Inl ZeroDivisionError else Inr (x / y))"

definition py_div :: "pyval \<Rightarrow> pyval \<Rightarrow> exn + rat" where
  "py_div a b =
     (case (number_of a, number_of b) of
        (Some x, Some y) \<Rightarrow> true_div x y
      | _ \<Rightarrow> Inl TypeError)"

text \<open>
  \<^verbatim>\<open>round(x, ndigits)\<close> of a float rounds the exact value to the nearest multiple of
  \<^verbatim>\<open>10 ** -ndigits\<close>, a tie going to the even neighbour.
\<close>

definition round_half_even :: "rat \<Rightarrow> int" where
  "round_half_even y =
     (let f = \<lfloor>y\<rfloor>; d = y - of_int f
      in if d < 1 / 2 then f
         else if 1 / 2 < d then f + 1
         else if even f then f else f + 1)"

definition py_round :: "rat \<Rightarrow> nat \<Rightarrow> rat" where
  "py_round x ndigits = of_int (round_half_even (x * 10 ^ ndigits)) / 10 ^ ndigits"

section \<open>The collaborator service\<close>

text \<open>
  An outbound URL is the f-string \<^verbatim>\<open>f"{CALLBACK_URL}{request_id}/async-data"\<close>: a prefix,
  the request identifier and a suffix. The identifier is kept as the value it is, not as
  its rendering.
\<close>

datatype url = Url string pyval string

text \<open>A call of \<^verbatim>\<open>requests.get\<close> or \<^verbatim>\<open>requests.put\<close>: URL, JSON body, headers, timeout.\<close>

datatype http_call =
    Get url "(string \<times> string) list" nat
  | Put url pyval "(string \<times> string) list" nat

text \<open>
  What a call does: it raises, or it returns a response with a status code and a body.
  The second component is what \<^verbatim>\<open>response.json()\<close> does when it is called: the
  decoded document, or the exception of a body that is not JSON.
\<close>

datatype reply =
    Raises exn
  | Response int "exn + pyval"

text \<open>
  The world outside the process: how the collaborator answers a call, and the calls made
  so far, oldest first.
\<close>

record world =
  server :: "http_call \<Rightarrow> reply"
  calls :: "http_call list"

definition CALLBACK_URL :: string where
  "CALLBACK_URL = ''http://localhost:8080/api/calculate-cpi/''"

definition AUTH_TOKEN :: string where
  "AUTH_TOKEN = ''lab8token''"

definition headers :: "(string \<times> string) list" where
  "headers = [(''Content-Type'', ''application/json''), (''X-Auth-Token'', AUTH_TOKEN)]"

definition requests_get :: "world \<Rightarrow> url \<Rightarrow> (string \<times> string) list \<Rightarrow> nat \<Rightarrow> reply \<times> world" where
  "requests_get w u hs timeout =
     (server w (Get u hs timeout), w\<lparr>calls := calls w @ [Get u hs timeout]\<rparr>)"

definition requests_put :: "world \<Rightarrow> url \<Rightarrow> pyval \<Rightarrow> (string \<times> string) list \<Rightarrow> nat \<Rightarrow> reply \<times> world" where
  "requests_put w u body hs timeout =
     (server w (Put u body hs timeout), w\<lparr>calls := calls w @ [Put u body hs timeout]\<rparr>)"

section \<open>calculate\_personal\_cpi\<close>

text \<open>
  The record returned on every path that has no index:
  \<^verbatim>\<open>{"id": request_id, "personalCPI": None, "success": False}\<close>.
\<close>

definition failure :: "pyval \<Rightarrow> pyval" where
  "failure request_id =
     PDict [(''id'', request_id), (''personalCPI'', PNone), (''success'', PBool False)]"

text \<open>
  \<^verbatim>\<open>sum(cat.get('userSpent', 0) or 0 for cat in categories)\<close>: the total starts at
  \<^verbatim>\<open>0\<close> and takes the items in order.
\<close>

fun sum_user_spent :: "rat \<Rightarrow> pyval list \<Rightarrow> exn + rat" where
  "sum_user_spent acc [] = Inr acc"
| "sum_user_spent acc (cat # rest) =
     and_then (dict_get cat ''userSpent'' (PNum 0)) (\<lambda>v.
     and_then (num_add acc (py_or v (PNum 0))) (\<lambda>acc'.
     sum_user_spent acc' rest))"

text \<open>
  The \<^verbatim>\<open>for category in categories\<close> loop, with its two variables
  \<^verbatim>\<open>personal_cpi\<close> and \<^verbatim>\<open>has_valid_categories\<close> as the state.
  \<^verbatim>\<open>base_price > 0 and user_spent > 0\<close> evaluates its right operand only when the
  left one is true.
\<close>

fun cpi_loop :: "rat \<Rightarrow> pyval list \<Rightarrow> rat \<times> bool \<Rightarrow> exn + rat \<times> bool" where
  "cpi_loop total_spent [] st = Inr st"
| "cpi_loop total_spent (category # rest) (personal_cpi, has_valid_categories) =
     and_then (dict_get category ''userSpent'' (PNum 0)) (\<lambda>us.
     and_then (dict_get category ''basePrice'' (PNum 0)) (\<lambda>bp.
     let user_spent = py_or us (PNum 0);
         base_price = py_or bp (PNum 0)
     in
     and_then (gt_zero base_price) (\<lambda>base_pos.
     and_then (if base_pos then gt_zero user_spent else Inr False) (\<lambda>valid.
     if valid then
       and_then (py_div user_spent (PNum total_spent)) (\<lambda>weight.
       and_then (py_sub user_spent base_price) (\<lambda>diff.
       and_then (py_div (PNum diff) base_price) (\<lambda>change.
       cpi_loop total_spent rest (personal_cpi + weight * change, True))))
     else cpi_loop total_spent rest (personal_cpi, has_valid_categories)))))"

text \<open>
  The branch \<^verbatim>\<open>if response.status_code == 200\<close> from the decoded document on (the
  Index Calculator). The \<^verbatim>\<open>print\<close> calls are not modelled, except that
  \<^verbatim>\<open>len(categories)\<close> inside the first one can raise.
\<close>

definition index_calculator :: "pyval \<Rightarrow> pyval \<Rightarrow> exn + pyval" where
  "index_calculator request_id request_data =
     and_then (dict_get request_data ''categories'' (PList [])) (\<lambda>categories.
     and_then (dict_get request_data ''comparisonDate'' PNone) (\<lambda>comparison_date.
     and_then (py_len categories) (\<lambda>n.
     if \<not> truthy categories then Inr (failure request_id)
     else
       and_then (py_iter categories) (\<lambda>cats.
       and_then (sum_user_spent 0 cats) (\<lambda>total_spent.
       if total_spent = 0 then Inr (failure request_id)
       else
         and_then (cpi_loop total_spent cats (0, False)) (\<lambda>(personal_cpi, has_valid_categories).
         if \<not> has_valid_categories then Inr (failure request_id)
         else
           Inr (PDict [(''id'', request_id),
                       (''personalCPI'', PNum (py_round (personal_cpi * 100) 2)),
                       (''success'', PBool True)])))))))"

text \<open>
  The body of the \<^verbatim>\<open>try\<close> block after \<^verbatim>\<open>requests.get\<close> has answered;
  \<^verbatim>\<open>response.json()\<close> is called only for status 200.
\<close>

definition try_body :: "pyval \<Rightarrow> reply \<Rightarrow> exn + pyval" where
  "try_body request_id r =
     (case r of
        Raises e \<Rightarrow> Inl e
      | Response status_code json \<Rightarrow>
          if status_code = 200 then and_then json (index_calculator request_id)
          else Inr (failure request_id))"

text \<open>
  The whole function. \<^verbatim>\<open>time.sleep(30)\<close> only takes time. Both handlers print and
  fall through to the final \<^verbatim>\<open>return\<close>; an exception that is not an
  \<^verbatim>\<open>Exception\<close> leaves the function.
\<close>

definition calculate_personal_cpi :: "world \<Rightarrow> pyval \<Rightarrow> (exn + pyval) \<times> world" where
  "calculate_personal_cpi w request_id =
     (let u = Url CALLBACK_URL request_id ''/async-data'';
          (response, w') = requests_get w u headers 10
      in (case try_body request_id response of
            Inr result \<Rightarrow> Inr result
          | Inl e \<Rightarrow>
              if is_RequestException e then Inr (failure request_id)
              else if is_Exception e then Inr (failure request_id)
              else Inl e,
          w'))"

section \<open>result\_callback and the submitted task\<close>

text \<open>
  A completed future of \<^verbatim>\<open>concurrent.futures\<close>: it holds the value the task
  returned or the exception it raised, or it was cancelled before it ran.
  \<^verbatim>\<open>task.result()\<close> returns the value or raises.
\<close>

datatype future = Finished pyval | Failed exn | Cancelled

fun task_result :: "future \<Rightarrow> exn + pyval" where
  "task_result (Finished v) = Inr v"
| "task_result (Failed e) = Inl e"
| "task_result Cancelled = Inl CancelledError"

text \<open>The first \<^verbatim>\<open>try\<close> block of the callback: the result and the values it prints.\<close>

definition read_result :: "future \<Rightarrow> exn + pyval" where
  "read_result task =
     and_then (task_result task) (\<lambda>result.
     and_then (subscript result ''id'') (\<lambda>i.
     and_then (dict_get result ''personalCPI'' PNone) (\<lambda>p.
     and_then (dict_get result ''success'' PNone) (\<lambda>s.
     Inr result))))"

text \<open>
  The second \<^verbatim>\<open>try\<close> block: the PUT of the payload. The status of the response is
  only printed.
\<close>

definition send_result :: "world \<Rightarrow> pyval \<Rightarrow> (exn + unit) \<times> world" where
  "send_result w result =
     (case subscript result ''id'' of
        Inl e \<Rightarrow> (Inl e, w)
      | Inr request_id \<Rightarrow>
          let u = Url CALLBACK_URL request_id ''/async-result'' in
          (case dict_get result ''personalCPI'' PNone of
             Inl e \<Rightarrow> (Inl e, w)
           | Inr p \<Rightarrow>
               (case dict_get result ''success'' (PBool False) of
                  Inl e \<Rightarrow> (Inl e, w)
                | Inr s \<Rightarrow>
                    let payload = PDict [(''personalCPI'', p), (''success'', s)];
                        (response, w') = requests_put w u payload headers 10
                    in (case response of
                          Raises e \<Rightarrow> (Inl e, w')
                        | Response status_code json \<Rightarrow> (Inr (), w')))))"

text \<open>
  The callback returns \<^verbatim>\<open>None\<close> (here \<open>None\<close>) or lets an exception through
  (\<open>Some e\<close>).
\<close>

definition result_callback :: "world \<Rightarrow> future \<Rightarrow> exn option \<times> world" where
  "result_callback w task =
     (case read_result task of
        Inl e \<Rightarrow>
          if e = CancelledError then (None, w)
          else if is_Exception e then (None, w)
          else (Some e, w)
      | Inr result \<Rightarrow>
          (case send_result w result of
             (Inr u, w') \<Rightarrow> (None, w')
           | (Inl e, w') \<Rightarrow> if is_Exception e then (None, w') else (Some e, w')))"

text \<open>
  One task that \<^verbatim>\<open>process_request\<close> submitted with
  \<^verbatim>\<open>executor.submit(calculate_personal_cpi, request_id)\<close> and
  \<^verbatim>\<open>task.add_done_callback(result_callback)\<close>, and that was not cancelled: the
  executor runs the function, stores what it returned or raised in the future, and then
  calls the callback once with that future.
\<close>

definition submitted_task :: "world \<Rightarrow> pyval \<Rightarrow> exn option \<times> world" where
  "submitted_task w request_id =
     (let (r, w') = calculate_personal_cpi w request_id;
          task = (case r of Inr v \<Rightarrow> Finished v | Inl e \<Rightarrow> Failed e)
      in result_callback w' task)"

section \<open>The data model of the specification\<close>

text \<open>
  The specification speaks of typed data: a CategoryRecord has the numeric, nullable
  fields \<^verbatim>\<open>userSpent\<close> and \<^verbatim>\<open>basePrice\<close>, a RequestData is a sequence of
  CategoryRecords and a comparison date. The definitions of this section follow the
  specification's words; they say which decoded documents are such data and what the
  specification's quantities are on them.
\<close>

text \<open>The field is absent, null or a number.\<close>

definition numeric_or_null :: "pyval \<Rightarrow> string \<Rightarrow> bool" where
  "numeric_or_null c key =
     (case c of
        PDict kvs \<Rightarrow>
          (case map_of kvs key of
             None \<Rightarrow> True | Some PNone \<Rightarrow> True | Some (PNum x) \<Rightarrow> True | _ \<Rightarrow> False)
      | _ \<Rightarrow> False)"

definition category_record :: "pyval \<Rightarrow> bool" where
  "category_record c = (numeric_or_null c ''userSpent'' \<and> numeric_or_null c ''basePrice'')"

text \<open>The value of a field, \<open>0\<close> when it is absent or null.\<close>

definition field_value :: "pyval \<Rightarrow> string \<Rightarrow> rat" where
  "field_value c key =
     (case c of
        PDict kvs \<Rightarrow> (case map_of kvs key of Some (PNum x) \<Rightarrow> x | _ \<Rightarrow> 0)
      | _ \<Rightarrow> 0)"

definition userSpent :: "pyval \<Rightarrow> rat" where
  "userSpent c = field_value c ''userSpent''"

definition basePrice :: "pyval \<Rightarrow> rat" where
  "basePrice c = field_value c ''basePrice''"

text \<open>\<open>totalSpent\<close> is the sum of \<open>userSpent\<close> over all categories.\<close>

definition totalSpent :: "pyval list \<Rightarrow> rat" where
  "totalSpent cats = sum_list (map userSpent cats)"

text \<open>The categories that count: \<open>basePrice > 0\<close> and \<open>userSpent > 0\<close>.\<close>

definition valid_category :: "pyval \<Rightarrow> bool" where
  "valid_category c = (0 < basePrice c \<and> 0 < userSpent c)"

text \<open>\<open>weight * change\<close> of one category, for a given total.\<close>

definition weighted_change :: "rat \<Rightarrow> pyval \<Rightarrow> rat" where
  "weighted_change tot c =
     userSpent c / tot * ((userSpent c - basePrice c) / basePrice c)"

text \<open>
  The index of the specification: one hundred times the sum of \<open>weight * change\<close> over
  exactly the valid categories, the weights taken against the total over all categories,
  rounded to two decimal places.
\<close>

definition weighted_index :: "pyval list \<Rightarrow> rat" where
  "weighted_index cats =
     py_round (100 * sum_list (map (weighted_change (totalSpent cats))
                                 (filter valid_category cats))) 2"

text \<open>The GET that fetches the data of a request, and the PUT that reports a body.\<close>

definition data_request :: "pyval \<Rightarrow> http_call" where
  "data_request request_id = Get (Url CALLBACK_URL request_id ''/async-data'') headers 10"

definition report_request :: "pyval \<Rightarrow> pyval \<Rightarrow> http_call" where
  "report_request request_id body =
     Put (Url CALLBACK_URL request_id ''/async-result'') body headers 10"

text \<open>The body of a report of failure: \<^verbatim>\<open>{"personalCPI": null, "success": false}\<close>.\<close>

definition failure_body :: pyval where
  "failure_body = PDict [(''personalCPI'', PNone), (''success'', PBool False)]"

text \<open>
  The invariant of a CalculationOutcome: \<^verbatim>\<open>success\<close> is a boolean, and it is true
  exactly when \<^verbatim>\<open>personalCPI\<close> is not \<^verbatim>\<open>None\<close>.
\<close>

definition outcome_invariant :: "pyval \<Rightarrow> bool" where
  "outcome_invariant result =
     (case result of
        PDict kvs \<Rightarrow>
          (case (map_of kvs ''success'', map_of kvs ''personalCPI'') of
             (Some (PBool s), Some p) \<Rightarrow> s = (p \<noteq> PNone)
           | _ \<Rightarrow> False)
      | _ \<Rightarrow> False)"


subsection \<open>Sample data\<close>

text \<open>A collaborator that answers every call with status 200 and the same document.\<close>

definition answering :: "pyval \<Rightarrow> world" where
  "answering d = \<lparr>server = (\<lambda>c. Response 200 (Inr d)), calls = []\<rparr>"

text \<open>A collaborator that answers every call with the given reply.\<close>

definition replying :: "reply \<Rightarrow> world" where
  "replying r = \<lparr>server = (\<lambda>c. r), calls = []\<rparr>"

definition category :: "rat \<Rightarrow> rat \<Rightarrow> pyval" where
  "category us bp = PDict [(''userSpent'', PNum us), (''basePrice'', PNum bp)]"

definition request_data :: "pyval list \<Rightarrow> pyval \<Rightarrow> pyval" where
  "request_data cats date = PDict [(''categories'', PList cats), (''comparisonDate'', date)]"

text \<open>A category whose \<^verbatim>\<open>userSpent\<close> is a string: adding it to the total raises.\<close>

definition ill_typed_category :: pyval where
  "ill_typed_category = PDict [(''userSpent'', PStr ''abc''), (''basePrice'', PNum 10)]"

text \<open>Three categories, the last of which is skipped for its base price.\<close>

definition skipped_sample :: "pyval list" where
  "skipped_sample = [category 50 50, category 50 25, category 100 0]"

section \<open>The loops on typed data\<close>

lemma field_read:
  "numeric_or_null c key \<Longrightarrow>
   \<exists>v. dict_get c key (PNum 0) = Inr v \<and> py_or v (PNum 0) = PNum (field_value c key)"
  by (cases c) (auto simp: numeric_or_null_def field_value_def py_or_def
        split: option.splits pyval.splits)

lemma sum_user_spent_total:
  "list_all category_record cats \<Longrightarrow> sum_user_spent acc cats = Inr (acc + totalSpent cats)"
proof (induction cats arbitrary: acc)
  case Nil
  show ?case by (simp add: totalSpent_def)
next
  case (Cons c cats)
  from Cons.prems have c: "category_record c" and rest: "list_all category_record cats"
    by simp_all
  from c have "numeric_or_null c ''userSpent''"
    by (simp add: category_record_def)
  then obtain v where v: "dict_get c ''userSpent'' (PNum 0) = Inr v"
      "py_or v (PNum 0) = PNum (field_value c ''userSpent'')"
    using field_read by blast
  have "sum_user_spent acc (c # cats) = sum_user_spent (acc + userSpent c) cats"
    by (simp add: v and_then_def num_add_def userSpent_def)
  also have "\<dots> = Inr (acc + userSpent c + totalSpent cats)"
    using Cons.IH [OF rest] .
  finally show ?case by (simp add: totalSpent_def)
qed

lemma cpi_loop_step:
  assumes "category_record c" and "tot \<noteq> 0"
  shows "cpi_loop tot (c # cats) (p, h) =
         cpi_loop tot cats
           (if valid_category c then (p + weighted_change tot c, True) else (p, h))"
proof -
  from assms(1) obtain us bp where
    us: "dict_get c ''userSpent'' (PNum 0) = Inr us"
        "py_or us (PNum 0) = PNum (userSpent c)" and
    bp: "dict_get c ''basePrice'' (PNum 0) = Inr bp"
        "py_or bp (PNum 0) = PNum (basePrice c)"
    unfolding category_record_def userSpent_def basePrice_def
    using field_read by blast
  show ?thesis
    using assms(2)
    by (auto simp: us bp and_then_def gt_zero_def py_div_def py_sub_def true_div_def
          valid_category_def weighted_change_def Let_def)
qed

lemma cpi_loop_total:
  "list_all category_record cats \<Longrightarrow> tot \<noteq> 0 \<Longrightarrow>
   cpi_loop tot cats (p, h) =
     Inr (p + sum_list (map (weighted_change tot) (filter valid_category cats)),
          h \<or> (\<exists>c \<in> set cats. valid_category c))"
proof (induction cats arbitrary: p h)
  case Nil
  show ?case by simp
next
  case (Cons c cats)
  then have c: "category_record c" and rest: "list_all category_record cats" by simp_all
  show ?case
    unfolding cpi_loop_step [OF c Cons.prems(2)]
    using Cons.IH [OF rest Cons.prems(2)]
    by (auto simp: add.assoc)
qed

lemma index_calculator_records:
  assumes "map_of kvs ''categories'' = Some (PList cats)"
    and "list_all category_record cats"
  shows "index_calculator rid (PDict kvs) =
         (if cats = [] \<or> totalSpent cats = 0 \<or> \<not> (\<exists>c \<in> set cats. valid_category c)
          then Inr (failure rid)
          else Inr (PDict [(''id'', rid),
                           (''personalCPI'', PNum (weighted_index cats)),
                           (''success'', PBool True)]))"
proof (cases "cats = [] \<or> totalSpent cats = 0")
  case True
  then show ?thesis
    using assms
    by (auto simp: index_calculator_def and_then_def sum_user_spent_total
          split: option.splits)
next
  case False
  then have t: "totalSpent cats \<noteq> 0" and ne: "cats \<noteq> []" by simp_all
  have loop: "cpi_loop (totalSpent cats) cats (0, False) =
      Inr (sum_list (map (weighted_change (totalSpent cats)) (filter valid_category cats)),
           \<exists>c \<in> set cats. valid_category c)"
    using cpi_loop_total [OF assms(2) t, of 0 False] by simp
  show ?thesis
    using assms(1) t ne
    by (simp add: index_calculator_def and_then_def sum_user_spent_total [OF assms(2)]
          loop weighted_index_def mult.commute split: option.splits)
qed

section \<open>The task body around the calculation\<close>

lemma calculate_returns:
  "try_body rid (server w (data_request rid)) = Inr r \<Longrightarrow>
   fst (calculate_personal_cpi w rid) = Inr r"
  by (simp add: calculate_personal_cpi_def requests_get_def data_request_def)

lemma calculate_catches:
  "try_body rid (server w (data_request rid)) = Inl e \<Longrightarrow> is_Exception e \<Longrightarrow>
   fst (calculate_personal_cpi w rid) = Inr (failure rid)"
  by (simp add: calculate_personal_cpi_def requests_get_def data_request_def)

lemma calculate_world:
  "snd (calculate_personal_cpi w rid) = w\<lparr>calls := calls w @ [data_request rid]\<rparr>"
  by (simp add: calculate_personal_cpi_def requests_get_def data_request_def Let_def)

lemma calculate_fetched:
  "server w (data_request rid) = Response 200 (Inr d) \<Longrightarrow> index_calculator rid d = Inr r \<Longrightarrow>
   fst (calculate_personal_cpi w rid) = Inr r"
  by (rule calculate_returns) (simp add: try_body_def and_then_def)

section \<open>The task on typed data\<close>

lemma fetched_records:
  assumes "server w (data_request rid) = Response 200 (Inr (PDict kvs))"
    and "map_of kvs ''categories'' = Some (PList cats)"
    and "list_all category_record cats"
  shows "fst (calculate_personal_cpi w rid) =
         (if cats = [] \<or> totalSpent cats = 0 \<or> \<not> (\<exists>c \<in> set cats. valid_category c)
          then Inr (failure rid)
          else Inr (PDict [(''id'', rid),
                           (''personalCPI'', PNum (weighted_index cats)),
                           (''success'', PBool True)]))"
proof (cases "cats = [] \<or> totalSpent cats = 0 \<or> \<not> (\<exists>c \<in> set cats. valid_category c)")
  case True
  then have "index_calculator rid (PDict kvs) = Inr (failure rid)"
    by (simp add: index_calculator_records [OF assms(2,3)])
  from calculate_fetched [OF assms(1) this] True show ?thesis by simp
next
  case False
  then have "index_calculator rid (PDict kvs) =
      Inr (PDict [(''id'', rid), (''personalCPI'', PNum (weighted_index cats)),
                  (''success'', PBool True)])"
    by (simp add: index_calculator_records [OF assms(2,3)])
  from calculate_fetched [OF assms(1) this] False show ?thesis by simp
qed

lemma category_is_record: "category_record (category us bp)"
  by (simp add: category_record_def numeric_or_null_def category_def)

lemma category_fields: "userSpent (category us bp) = us" "basePrice (category us bp) = bp"
  by (simp_all add: userSpent_def basePrice_def field_value_def category_def)

lemma categories_of_request_data:
  "request_data cats date = PDict [(''categories'', PList cats), (''comparisonDate'', date)]"
  "map_of [(''categories'', PList cats), (''comparisonDate'', date)] ''categories'' = Some (PList cats)"
  by (simp_all add: request_data_def)


lemma round_25: "py_round 25 2 = 25"
  by (simp add: py_round_def round_half_even_def)



lemma index_skipped: "weighted_index skipped_sample = 25"
  by (simp add: skipped_sample_def weighted_index_def totalSpent_def valid_category_def
        weighted_change_def category_fields round_25)

section \<open>Exceptions and the shape of the outcome\<close>

text \<open>
  Whatever the calculation raises is an \<^verbatim>\<open>Exception\<close>, and whatever the task body
  returns is the failure record or a record with a number and \<^verbatim>\<open>success = True\<close>.
\<close>

lemma dict_get_raises: "dict_get c key dflt = Inl e \<Longrightarrow> e = AttributeError"
  by (cases c) (auto split: option.splits)

lemma sum_user_spent_raises: "sum_user_spent acc cats = Inl e \<Longrightarrow> is_Exception e"
proof (induction cats arbitrary: acc)
  case Nil
  then show ?case by simp
next
  case (Cons c cats)
  then show ?case
    by (auto simp: and_then_def num_add_def split: sum.splits option.splits
          dest: dict_get_raises)
qed

lemma gt_zero_raises: "gt_zero v = Inl e \<Longrightarrow> e = TypeError"
  by (auto simp: gt_zero_def split: option.splits)

lemma py_sub_raises: "py_sub a b = Inl e \<Longrightarrow> e = TypeError"
  by (auto simp: py_sub_def split: option.splits)

lemma py_div_raises: "py_div a b = Inl e \<Longrightarrow> e = TypeError \<or> e = ZeroDivisionError"
  by (auto simp: py_div_def true_div_def split: option.splits if_splits)

lemma cpi_loop_raises: "cpi_loop tot cats st = Inl e \<Longrightarrow> is_Exception e"
proof (induction tot cats st rule: cpi_loop.induct)
  case (1 tot st)
  then show ?case by simp
next
  case (2 tot category rest personal_cpi has_valid_categories)
  from "2.prems" show ?case
    by (auto simp: and_then_def Let_def split: sum.splits if_splits
          dest!: dict_get_raises gt_zero_raises py_sub_raises py_div_raises
          intro: "2.IH")
qed

lemma py_len_raises: "py_len v = Inl e \<Longrightarrow> e = TypeError"
  by (cases v) auto

lemma py_iter_raises: "py_iter v = Inl e \<Longrightarrow> e = TypeError"
  by (cases v) auto

lemma index_calculator_raises: "index_calculator rid d = Inl e \<Longrightarrow> is_Exception e"
  by (auto simp: index_calculator_def and_then_def
        split: sum.splits if_splits prod.splits
        dest!: dict_get_raises py_len_raises py_iter_raises
        dest: sum_user_spent_raises cpi_loop_raises)

lemma index_calculator_shape:
  "index_calculator rid d = Inr r \<Longrightarrow>
   r = failure rid \<or>
   (\<exists>x. r = PDict [(''id'', rid), (''personalCPI'', PNum x), (''success'', PBool True)])"
  by (auto simp: index_calculator_def and_then_def split: sum.splits if_splits prod.splits)

lemma try_body_shape:
  "try_body rid rep = Inr r \<Longrightarrow>
   r = failure rid \<or>
   (\<exists>x. r = PDict [(''id'', rid), (''personalCPI'', PNum x), (''success'', PBool True)])"
  by (auto simp: try_body_def and_then_def split: reply.splits sum.splits if_splits
        dest: index_calculator_shape)


lemma calculate_shape:
  "fst (calculate_personal_cpi w rid) = Inr r \<Longrightarrow>
   r = failure rid \<or>
   (\<exists>x. r = PDict [(''id'', rid), (''personalCPI'', PNum x), (''success'', PBool True)])"
  by (auto simp: calculate_personal_cpi_def requests_get_def Let_def
        split: sum.splits if_splits dest: try_body_shape)


section \<open>The completion handler\<close>

lemma callback_sends:
  "calls (snd (result_callback w
      (Finished (PDict [(''id'', rid), (''personalCPI'', p), (''success'', s)])))) =
   calls w @ [report_request rid (PDict [(''personalCPI'', p), (''success'', s)])]"
  by (simp add: result_callback_def read_result_def send_result_def and_then_def
        requests_put_def report_request_def Let_def split: reply.splits)

lemma callback_skips:
  "calls (snd (result_callback w (Failed e))) = calls w"
  "calls (snd (result_callback w Cancelled)) = calls w"
  by (simp_all add: result_callback_def read_result_def and_then_def)

lemma submitted_failure:
  assumes "fst (calculate_personal_cpi w rid) = Inr (failure rid)"
  shows "calls (snd (submitted_task w rid)) =
         calls w @ [data_request rid, report_request rid failure_body]"
proof -
  have "submitted_task w rid =
        result_callback (snd (calculate_personal_cpi w rid)) (Finished (failure rid))"
    using assms by (simp add: submitted_task_def split_beta)
  then show ?thesis
    by (simp add: calculate_world failure_def callback_sends failure_body_def)
qed



section \<open>The claims\<close>





text \<open>
  Claim C3. When the fetch answered with status 200 and a document whose categories are
  CategoryRecords each with \<open>basePrice \<le> 0\<close> or \<open>userSpent \<le> 0\<close> (absent and null
  fields read as 0), the outcome has \<^verbatim>\<open>success = False\<close> and
  \<^verbatim>\<open>personalCPI = None\<close>, whatever \<open>totalSpent\<close> is.
\<close>

theorem no_valid_category_no_index:
  assumes "server w (data_request rid) = Response 200 (Inr (PDict kvs))"
    and "map_of kvs ''categories'' = Some (PList cats)"
    and "list_all category_record cats"
    and "\<forall>c \<in> set cats. basePrice c \<le> 0 \<or> userSpent c \<le> 0"
  shows "fst (calculate_personal_cpi w rid) =
         Inr (PDict [(''id'', rid), (''personalCPI'', PNone), (''success'', PBool False)])"
proof -
  from assms(4) have "\<not> (\<exists>c \<in> set cats. valid_category c)"
    by (auto simp: valid_category_def)
  with fetched_records [OF assms(1-3)] show ?thesis
    by (simp add: failure_def)
qed

theorem no_valid_category_no_index_witness:
  "server (answering (request_data [category 100 0, category 0 50] PNone)) (data_request (PNum 7)) =
     Response 200 (Inr (request_data [category 100 0, category 0 50] PNone))
   \<and> list_all category_record [category 100 0, category 0 50]
   \<and> 0 < totalSpent [category 100 0, category 0 50]
   \<and> fst (calculate_personal_cpi (answering (request_data [category 100 0, category 0 50] PNone)) (PNum 7)) =
       Inr (PDict [(''id'', PNum 7), (''personalCPI'', PNone), (''success'', PBool False)])"
proof -
  let ?cats = "[category 100 0, category 0 50]"
  have a: "server (answering (request_data ?cats PNone)) (data_request (PNum 7)) =
      Response 200 (Inr (PDict [(''categories'', PList ?cats), (''comparisonDate'', PNone)]))"
    by (simp add: answering_def request_data_def)
  have b: "list_all category_record ?cats"
    by (simp add: category_is_record)
  have c: "0 < totalSpent ?cats"
    by (simp add: totalSpent_def category_fields)
  have d: "\<forall>c \<in> set ?cats. basePrice c \<le> 0 \<or> userSpent c \<le> 0"
    by (simp add: category_fields)
  show ?thesis
    using no_valid_category_no_index [OF a categories_of_request_data(2) b d] a b c
    by (simp add: request_data_def)
qed

text \<open>
  Claim C4. Every outcome the task body returns, on whatever reply of the collaborator
  (a fetch failure and degenerate data included), satisfies the invariant:
  \<^verbatim>\<open>success\<close> is true exactly when \<^verbatim>\<open>personalCPI\<close> is not \<^verbatim>\<open>None\<close>, so a
  false \<^verbatim>\<open>success\<close> comes with \<^verbatim>\<open>personalCPI = None\<close>.
\<close>

theorem outcome_invariant_holds:
  assumes "fst (calculate_personal_cpi w rid) = Inr result"
  shows "outcome_invariant result"
  using calculate_shape [OF assms]
  by (auto simp: outcome_invariant_def failure_def)

theorem outcome_invariant_holds_witness:
  "fst (calculate_personal_cpi (answering (request_data skipped_sample PNone)) (PNum 7)) =
     Inr (PDict [(''id'', PNum 7), (''personalCPI'', PNum 25), (''success'', PBool True)])
   \<and> outcome_invariant (PDict [(''id'', PNum 7), (''personalCPI'', PNum 25), (''success'', PBool True)])
   \<and> fst (calculate_personal_cpi (replying (Raises RequestException)) (PNum 7)) =
     Inr (PDict [(''id'', PNum 7), (''personalCPI'', PNone), (''success'', PBool False)])
   \<and> outcome_invariant (PDict [(''id'', PNum 7), (''personalCPI'', PNone), (''success'', PBool False)])"
proof -
  have a: "server (answering (request_data skipped_sample PNone)) (data_request (PNum 7)) =
      Response 200 (Inr (PDict [(''categories'', PList skipped_sample), (''comparisonDate'', PNone)]))"
    by (simp add: answering_def request_data_def)
  have b: "list_all category_record skipped_sample"
    by (simp add: skipped_sample_def category_is_record)
  have c: "\<not> (skipped_sample = [] \<or> totalSpent skipped_sample = 0
              \<or> \<not> (\<exists>c \<in> set skipped_sample. valid_category c))"
    by (simp add: skipped_sample_def totalSpent_def valid_category_def category_fields)
  have r1: "fst (calculate_personal_cpi (answering (request_data skipped_sample PNone)) (PNum 7)) =
     Inr (PDict [(''id'', PNum 7), (''personalCPI'', PNum 25), (''success'', PBool True)])"
    using fetched_records [OF a categories_of_request_data(2) b] c
    by (auto simp: index_skipped)
  have r2: "fst (calculate_personal_cpi (replying (Raises RequestException)) (PNum 7)) =
     Inr (PDict [(''id'', PNum 7), (''personalCPI'', PNone), (''success'', PBool False)])"
    by (simp add: calculate_personal_cpi_def requests_get_def replying_def try_body_def failure_def)
  from outcome_invariant_holds [OF r1] outcome_invariant_holds [OF r2] r1 r2
  show ?thesis by simp
qed

text \<open>
  Claim C5. When the data fetch fails, by a status other than 200 or by an exception of
  \<^verbatim>\<open>requests\<close>, the task makes, after the GET, exactly one call: the PUT to the
  result URL of that request identifier with the body
  \<^verbatim>\<open>{"personalCPI": null, "success": false}\<close>.
\<close>

theorem fetch_failure_reported_once:
  assumes "(\<exists>e. server w (data_request rid) = Raises e \<and> is_RequestException e)
         \<or> (\<exists>status_code json. server w (data_request rid) = Response status_code json
               \<and> status_code \<noteq> 200)"
  shows "calls (snd (submitted_task w rid)) =
         calls w @ [data_request rid,
                    report_request rid (PDict [(''personalCPI'', PNone), (''success'', PBool False)])]"
proof -
  have "fst (calculate_personal_cpi w rid) = Inr (failure rid)"
    using assms
  proof (elim disjE exE conjE)
    fix e
    assume "server w (data_request rid) = Raises e" and "is_RequestException e"
    then show ?thesis
      by (simp add: calculate_personal_cpi_def requests_get_def data_request_def try_body_def)
  next
    fix status_code json
    assume "server w (data_request rid) = Response status_code json" and "status_code \<noteq> 200"
    then show ?thesis
      by (simp add: calculate_personal_cpi_def requests_get_def data_request_def try_body_def)
  qed
  from submitted_failure [OF this] show ?thesis
    by (simp add: failure_body_def)
qed

theorem fetch_failure_reported_once_witness:
  "server (replying (Response 500 (Inl ValueError))) (data_request (PNum 7)) =
     Response 500 (Inl ValueError)
   \<and> calls (snd (submitted_task (replying (Response 500 (Inl ValueError))) (PNum 7))) =
       [data_request (PNum 7),
        report_request (PNum 7) (PDict [(''personalCPI'', PNone), (''success'', PBool False)])]
   \<and> server (replying (Raises RequestException)) (data_request (PStr ''a1'')) =
       Raises RequestException
   \<and> calls (snd (submitted_task (replying (Raises RequestException)) (PStr ''a1''))) =
       [data_request (PStr ''a1''),
        report_request (PStr ''a1'') (PDict [(''personalCPI'', PNone), (''success'', PBool False)])]"
proof -
  have a: "server (replying (Response 500 (Inl ValueError))) (data_request (PNum 7)) =
      Response 500 (Inl ValueError)"
    by (simp add: replying_def)
  have b: "server (replying (Raises RequestException)) (data_request (PStr ''a1'')) =
      Raises RequestException"
    by (simp add: replying_def)
  have c: "calls (replying r) = []" for r
    by (simp add: replying_def)
  show ?thesis
    using fetch_failure_reported_once [of "replying (Response 500 (Inl ValueError))" "PNum 7"]
      fetch_failure_reported_once [of "replying (Raises RequestException)" "PStr ''a1''"]
      a b c
    by simp
qed

text \<open>
  Claim C6 says that no report call is made when the Index Calculator raises an
  unexpected error. On the code this fails: a category whose \<^verbatim>\<open>userSpent\<close> is a
  string makes the sum raise \<^verbatim>\<open>TypeError\<close>, the \<^verbatim>\<open>except Exception\<close> handler
  of the task body catches it, the task returns the failure record, and the completion
  handler reports it.
\<close>

theorem calculation_error_counterexample:
  "server (answering (request_data [ill_typed_category] PNone)) (data_request (PNum 7)) =
     Response 200 (Inr (request_data [ill_typed_category] PNone))
   \<and> index_calculator (PNum 7) (request_data [ill_typed_category] PNone) = Inl TypeError
   \<and> calls (snd (submitted_task (answering (request_data [ill_typed_category] PNone)) (PNum 7))) =
       [data_request (PNum 7),
        report_request (PNum 7) (PDict [(''personalCPI'', PNone), (''success'', PBool False)])]"
proof -
  let ?w = "answering (request_data [ill_typed_category] PNone)"
  have a: "server ?w (data_request (PNum 7)) =
      Response 200 (Inr (request_data [ill_typed_category] PNone))"
    by (simp add: answering_def)
  have b: "index_calculator (PNum 7) (request_data [ill_typed_category] PNone) = Inl TypeError"
    by (simp add: index_calculator_def request_data_def ill_typed_category_def and_then_def
          py_or_def num_add_def)
  have "try_body (PNum 7) (server ?w (data_request (PNum 7))) = Inl TypeError"
    by (simp add: a try_body_def and_then_def b)
  from calculate_catches [OF this] have "fst (calculate_personal_cpi ?w (PNum 7)) = Inr (failure (PNum 7))"
    by simp
  from submitted_failure [OF this] have "calls (snd (submitted_task ?w (PNum 7))) =
      [data_request (PNum 7), report_request (PNum 7) failure_body]"
    by (simp add: answering_def)
  with a b show ?thesis by (simp add: failure_body_def)
qed

text \<open>
  Claim C6, amended. If the Index Calculator raises an error during a task, the task body
  catches it and returns the failure record, and exactly one report call, with the body
  \<^verbatim>\<open>{"personalCPI": null, "success": false}\<close>, is made for the task. The completion
  handler makes no call when the future it is given holds an exception or was cancelled.
\<close>

theorem calculation_error_reported:
  assumes "server w (data_request rid) = Response 200 (Inr d)"
    and "index_calculator rid d = Inl e"
  shows "fst (calculate_personal_cpi w rid) =
           Inr (PDict [(''id'', rid), (''personalCPI'', PNone), (''success'', PBool False)])
       \<and> calls (snd (submitted_task w rid)) =
           calls w @ [data_request rid,
                      report_request rid (PDict [(''personalCPI'', PNone), (''success'', PBool False)])]
       \<and> calls (snd (result_callback w' (Failed e'))) = calls w'
       \<and> calls (snd (result_callback w' Cancelled)) = calls w'"
proof -
  have "try_body rid (server w (data_request rid)) = Inl e"
    by (simp add: assms try_body_def and_then_def)
  from calculate_catches [OF this index_calculator_raises [OF assms(2)]]
  have r: "fst (calculate_personal_cpi w rid) = Inr (failure rid)" .
  from r submitted_failure [OF r] show ?thesis
    by (simp add: failure_def failure_body_def callback_skips)
qed

theorem calculation_error_reported_witness:
  "server (answering (request_data [ill_typed_category] PNone)) (data_request (PNum 7)) =
     Response 200 (Inr (request_data [ill_typed_category] PNone))
   \<and> index_calculator (PNum 7) (request_data [ill_typed_category] PNone) = Inl TypeError
   \<and> fst (calculate_personal_cpi (answering (request_data [ill_typed_category] PNone)) (PNum 7)) =
       Inr (PDict [(''id'', PNum 7), (''personalCPI'', PNone), (''success'', PBool False)])
   \<and> calls (snd (result_callback (replying (Raises RequestException)) (Failed KeyboardInterrupt))) = []"
proof -
  let ?w = "answering (request_data [ill_typed_category] PNone)"
  have a: "server ?w (data_request (PNum 7)) =
      Response 200 (Inr (request_data [ill_typed_category] PNone))"
    by (simp add: answering_def)
  have b: "index_calculator (PNum 7) (request_data [ill_typed_category] PNone) = Inl TypeError"
    by (simp add: index_calculator_def request_data_def ill_typed_category_def and_then_def
          py_or_def num_add_def)
  have c: "calls (replying (Raises RequestException)) = []"
    by (simp add: replying_def)
  show ?thesis
    using calculation_error_reported [OF a b,
        of "replying (Raises RequestException)" KeyboardInterrupt] a b c
    by simp
qed







end
